theory Spec2Isabelle
  imports Complex_Main
begin

section \<open>The bootstrap controller \<^verbatim>\<open>worker.py\<close>\<close>

text \<open>
  \<^verbatim>\<open>worker.py\<close> is a straight-line script: it prepares the node (Xvfb, mitmproxy CA),
  starts the FastAPI backend as a subprocess, polls its health endpoint and then hands
  over to the Vast PyWorker. Everything it does is an effect on the outside world, so the
  model is a function from a \<open>world\<close> (the answers the operating system gives to each call
  the script makes) to the list of effects performed, in order, and the way the script ends.
\<close>

subsection \<open>Exceptions, results and effects\<close>

text \<open>
  An exception raised by a library call: its class name and \<^verbatim>\<open>str(e)\<close>. These are the
  exceptions the calls of the script raise themselves (\<^verbatim>\<open>OSError\<close>, \<^verbatim>\<open>URLError\<close>,
  \<^verbatim>\<open>TimeoutExpired\<close>, ...), all subclasses of \<^verbatim>\<open>Exception\<close>, which is what every handler
  of the script catches. \<^verbatim>\<open>SystemExit\<close> is only raised by the script's own two
  \<^verbatim>\<open>sys.exit(1)\<close>, both outside every \<^verbatim>\<open>try\<close>; it is the \<open>Exit\<close> outcome below.
\<close>

datatype exc = Exc (exc_class: string) (exc_str: string)

datatype 'a result = Returns 'a | Raises exc

text \<open>Where the standard streams of a child process go.\<close>

datatype redirect = Inherit | DEVNULL | LogFile | STDOUT

text \<open>The arguments of one \<^verbatim>\<open>subprocess.Popen\<close> call; \<open>None\<close> is an argument not given.\<close>

record popen_call =
  args :: "string list"
  cwd :: "string option"
  stdout :: redirect
  stderr :: redirect
  env :: "(string \<rightharpoonup> string) option"

datatype event =
    Print string
  | Run "string list" nat
  | Spawn popen_call
  | Sleep nat
  | PathExists string
  | Makedirs string
  | OpenWrite string
  | Urlopen string nat
  | Flush
  | OpenRead string
  | Readlines
  | ImportVastai

text \<open>
  A piece of the script: the effects it performed and either its value or the exception
  that left it.
\<close>

type_synonym 'a io = "event list \<times> 'a result"

definition io_bind :: "'a io \<Rightarrow> ('a \<Rightarrow> 'b io) \<Rightarrow> 'b io" where
  "io_bind m f =
     (case m of
        (tr, Raises e) \<Rightarrow> (tr, Raises e)
      | (tr, Returns a) \<Rightarrow> (case f a of (tr', r) \<Rightarrow> (tr @ tr', r)))"

text \<open>\<^verbatim>\<open>try: m  except Exception as e: h e\<close>\<close>

definition try_except :: "'a io \<Rightarrow> (exc \<Rightarrow> 'a io) \<Rightarrow> 'a io" where
  "try_except m h =
     (case m of
        (tr, Raises e) \<Rightarrow> (case h e of (tr', r) \<Rightarrow> (tr @ tr', r))
      | (tr, Returns a) \<Rightarrow> (tr, Returns a))"

text \<open>
  A call of the outside world, with the result the world gives it. Writing to standard
  output and \<^verbatim>\<open>time.sleep\<close> are taken to succeed.
\<close>

definition call :: "event \<Rightarrow> 'a result \<Rightarrow> 'a io" where
  "call ev r = ([ev], r)"

definition print :: "string \<Rightarrow> unit io" where
  "print s = ([Print s], Returns ())"

definition sleep :: "nat \<Rightarrow> unit io" where
  "sleep n = ([Sleep n], Returns ())"

definition pass :: "unit io" where
  "pass = ([], Returns ())"

subsection \<open>The world\<close>

record world =
  environ :: "string \<rightharpoonup> string"
  sys_executable :: string
  path_exists :: "string \<Rightarrow> bool"
  pgrep :: "int result"
  xvfb_popen :: "unit result"
  certutil :: "int result"
  makedirs :: "unit result"
  open_log_w :: "unit result"
  server_popen :: "unit result"
  health :: "nat \<Rightarrow> int result"
  flush :: "unit result"
  open_log_r :: "unit result"
  readlines :: "string list result"
  import_vastai :: "unit result"

subsection \<open>1. Start Xvfb if not running\<close>

text \<open>\<^verbatim>\<open>os.environ.setdefault("DISPLAY", ":99")\<close>: a key already set keeps its value.\<close>

definition setdefault :: "(string \<rightharpoonup> string) \<Rightarrow> string \<Rightarrow> string \<Rightarrow> (string \<rightharpoonup> string)" where
  "setdefault d k v = (case d k of None \<Rightarrow> d(k \<mapsto> v) | Some _ \<Rightarrow> d)"

definition os_environ :: "world \<Rightarrow> (string \<rightharpoonup> string)" where
  "os_environ w = setdefault (environ w) ''DISPLAY'' '':99''"

definition pgrep_cmd :: "string list" where
  "pgrep_cmd = [''pgrep'', ''-x'', ''Xvfb'']"

definition xvfb_call :: popen_call where
  "xvfb_call =
     \<lparr>args = [''Xvfb'', '':99'', ''-screen'', ''0'', ''800x600x8'',
              ''-maxclients'', ''512'', ''-nolisten'', ''tcp''],
      cwd = None, stdout = DEVNULL, stderr = DEVNULL, env = None\<rparr>"

definition start_xvfb :: "world \<Rightarrow> unit io" where
  "start_xvfb w =
     try_except
       (io_bind (call (Run pgrep_cmd 5) (pgrep w)) (\<lambda>returncode.
          if returncode \<noteq> 0 then
            io_bind (print ''[worker] Starting Xvfb...'') (\<lambda>_.
            io_bind (call (Spawn xvfb_call) (xvfb_popen w)) (\<lambda>_.
            sleep 1))
          else print ''[worker] Xvfb already running''))
       (\<lambda>e. print (''[worker] Xvfb check failed: '' @ exc_str e))"

subsection \<open>2. Install mitmproxy CA if present\<close>

definition CA_CERT :: string where
  "CA_CERT = ''/root/.mitmproxy/mitmproxy-ca-cert.pem''"

definition certutil_cmd :: "string list" where
  "certutil_cmd = [''certutil'', ''-d'', ''sql:/root/.pki/nssdb'', ''-A'', ''-t'', ''C,,'',
                   ''-n'', ''mitmproxy'', ''-i'', CA_CERT]"

text \<open>\<^verbatim>\<open>os.path.exists\<close> does not raise: it answers \<^verbatim>\<open>False\<close> on any OS error.\<close>

definition os_path_exists :: "world \<Rightarrow> string \<Rightarrow> bool io" where
  "os_path_exists w p = call (PathExists p) (Returns (path_exists w p))"

definition install_ca :: "world \<Rightarrow> unit io" where
  "install_ca w =
     io_bind (os_path_exists w CA_CERT) (\<lambda>present.
       if present then
         try_except
           (io_bind (call (Run certutil_cmd 10) (certutil w)) (\<lambda>_.
            print ''[worker] mitmproxy CA installed''))
           (\<lambda>e. pass)
       else pass)"

subsection \<open>3. Start FastAPI server as subprocess\<close>

text \<open>\<^verbatim>\<open>os.path.join(a, b)\<close> of \<^verbatim>\<open>posixpath\<close>, for two arguments.\<close>

definition os_path_join :: "string \<Rightarrow> string \<Rightarrow> string" where
  "os_path_join a b =
     (if b \<noteq> [] \<and> hd b = CHR ''/'' then b
      else if a = [] \<or> last a = CHR ''/'' then a @ b
      else a @ ''/'' @ b)"

definition service_candidates :: "string list" where
  "service_candidates = [''/root/service'', ''/workspace'']"

text \<open>
  \<^verbatim>\<open>for candidate in [...]: if os.path.exists(...): SERVICE_DIR = candidate; break\<close>,
  with \<^verbatim>\<open>SERVICE_DIR = None\<close> before the loop.
\<close>

fun find_service_dir :: "world \<Rightarrow> string list \<Rightarrow> event list \<times> string option" where
  "find_service_dir w [] = ([], None)"
| "find_service_dir w (candidate # rest) =
     (if path_exists w (os_path_join candidate ''app_server.py'')
      then ([PathExists (os_path_join candidate ''app_server.py'')], Some candidate)
      else (case find_service_dir w rest of
              (tr, r) \<Rightarrow> (PathExists (os_path_join candidate ''app_server.py'') # tr, r)))"

definition log_path :: string where
  "log_path = ''/var/log/image-gen/server.log''"

text \<open>
  \<^verbatim>\<open>SYSTEM_PYTHON\<close>: two tests in sequence, each on the current value of the variable.
\<close>

definition resolve_python :: "world \<Rightarrow> string io" where
  "resolve_python w =
     io_bind (os_path_exists w ''/usr/bin/python3'') (\<lambda>e1.
       let p1 = (if \<not> e1 then ''/usr/local/bin/python3'' else ''/usr/bin/python3'') in
       io_bind (os_path_exists w p1) (\<lambda>e2.
         ([], Returns (if \<not> e2 then sys_executable w else p1))))"

definition server_call :: "(string \<rightharpoonup> string) \<Rightarrow> string \<Rightarrow> string \<Rightarrow> popen_call" where
  "server_call environment SYSTEM_PYTHON SERVICE_DIR =
     \<lparr>args = [SYSTEM_PYTHON, ''app_server.py''],
      cwd = Some SERVICE_DIR, stdout = LogFile, stderr = STDOUT,
      env = Some (environment(''DISPLAY'' \<mapsto> '':99''))\<rparr>"

definition start_server :: "world \<Rightarrow> string \<Rightarrow> unit io" where
  "start_server w SERVICE_DIR =
     io_bind (print (''[worker] Starting FastAPI from '' @ SERVICE_DIR @ ''...'')) (\<lambda>_.
     io_bind (call (Makedirs ''/var/log/image-gen'') (makedirs w)) (\<lambda>_.
     io_bind (call (OpenWrite log_path) (open_log_w w)) (\<lambda>_.
     io_bind (resolve_python w) (\<lambda>SYSTEM_PYTHON.
     call (Spawn (server_call (os_environ w) SYSTEM_PYTHON SERVICE_DIR)) (server_popen w)))))"

subsection \<open>4. Wait for FastAPI to be healthy\<close>

definition health_url :: string where
  "health_url = ''http://127.0.0.1:8080/health''"

text \<open>
  One pass through the \<^verbatim>\<open>try\<close> of the loop body, given what \<^verbatim>\<open>urlopen\<close> does on this
  call (return a response with a status, or raise). The value says whether
  \<^verbatim>\<open>healthy = True; break\<close> was reached.
\<close>

definition poll_once :: "int result \<Rightarrow> bool io" where
  "poll_once r =
     try_except
       (io_bind (call (Urlopen health_url 2) r) (\<lambda>status.
          if status = 200 then ([], Returns True) else ([], Returns False)))
       (\<lambda>e. ([], Returns False))"

text \<open>
  \<^verbatim>\<open>for i in range(60)\<close>: the loop variable is not used in the body; \<open>n\<close> counts the
  calls of \<^verbatim>\<open>urlopen\<close> made so far, and \<open>h n\<close> is what call number \<open>n\<close> (from 0) does.
  The value is \<^verbatim>\<open>healthy\<close> after the loop.
\<close>

fun health_loop :: "(nat \<Rightarrow> int result) \<Rightarrow> nat \<Rightarrow> nat list \<Rightarrow> bool io" where
  "health_loop h n [] = ([], Returns False)"
| "health_loop h n (i # rest) =
     io_bind (poll_once (h n)) (\<lambda>break.
       if break then ([], Returns True)
       else io_bind (sleep 1) (\<lambda>_. health_loop h (Suc n) rest))"

definition wait_healthy :: "world \<Rightarrow> bool io" where
  "wait_healthy w = health_loop (health w) 0 [0..<60]"

text \<open>
  The diagnostics after a timeout. \<^verbatim>\<open>str.rstrip()\<close> removes trailing whitespace; a line
  is modelled by its code points below 256, where \<^verbatim>\<open>str.isspace\<close> holds of these twelve.
\<close>

definition isspace :: "char \<Rightarrow> bool" where
  "isspace c = ((of_char c :: nat) \<in> {9, 10, 11, 12, 13, 28, 29, 30, 31, 32, 133, 160})"

definition rstrip :: "string \<Rightarrow> string" where
  "rstrip s = rev (dropWhile isspace (rev s))"

text \<open>\<^verbatim>\<open>xs[-k:]\<close> for a positive \<open>k\<close>: the last \<open>k\<close> elements, all of them if there are fewer.\<close>

definition last_lines :: "nat \<Rightarrow> 'a list \<Rightarrow> 'a list" where
  "last_lines k xs = drop (length xs - k) xs"

definition print_lines :: "string list \<Rightarrow> unit io" where
  "print_lines ls = (map (\<lambda>line. Print (''  '' @ rstrip line)) ls, Returns ())"

definition print_log_tail :: "world \<Rightarrow> unit io" where
  "print_log_tail w =
     try_except
       (io_bind (call Flush (flush w)) (\<lambda>_.
        io_bind (call (OpenRead log_path) (open_log_r w)) (\<lambda>_.
        io_bind (call Readlines (readlines w)) (\<lambda>lines.
        print_lines (last_lines 20 lines)))))
       (\<lambda>e. pass)"

subsection \<open>5. Run Vast PyWorker\<close>

text \<open>A request payload: any Python object; the script never looks inside one.\<close>

typedecl payload

record HandlerConfig =
  route :: string
  allow_parallel_requests :: bool
  max_queue_time :: real
  workload_calculator :: "payload \<Rightarrow> real"

record LogActionConfig =
  on_load :: "string list"
  on_error :: "string list"

record WorkerConfig =
  model_server_url :: string
  model_server_port :: int
  model_log_file :: string
  handlers :: "HandlerConfig list"
  log_action_config :: LogActionConfig

definition config :: WorkerConfig where
  "config =
     \<lparr>model_server_url = ''http://127.0.0.1'',
      model_server_port = 8080,
      model_log_file = ''/var/log/image-gen/server.log'',
      handlers =
        [\<lparr>route = ''/generate'', allow_parallel_requests = True,
          max_queue_time = 180, workload_calculator = (\<lambda>payload. 100)\<rparr>,
         \<lparr>route = ''/status'', allow_parallel_requests = True,
          max_queue_time = 5, workload_calculator = (\<lambda>payload. 1)\<rparr>,
         \<lparr>route = ''/health'', allow_parallel_requests = True,
          max_queue_time = 5, workload_calculator = (\<lambda>payload. 1)\<rparr>],
      log_action_config =
        \<lparr>on_load = [''Uvicorn running on'', ''Application startup complete''],
         on_error = [''ERROR'', ''Traceback'']\<rparr>\<rparr>"

subsection \<open>The whole script\<close>

text \<open>
  How the script ends: \<^verbatim>\<open>sys.exit(code)\<close>, an exception no handler caught (the
  interpreter prints the traceback and ends the process), or \<^verbatim>\<open>Worker(config).run()\<close>,
  which takes over and is not part of this program.
\<close>

datatype outcome = Exit int | Uncaught exc | Handoff WorkerConfig

text \<open>Statement sequencing at top level: an exception that leaves \<open>m\<close> ends the script.\<close>

definition run_then :: "'a io \<Rightarrow> ('a \<Rightarrow> event list \<times> outcome) \<Rightarrow> event list \<times> outcome" where
  "run_then m k =
     (case m of
        (tr, Raises e) \<Rightarrow> (tr, Uncaught e)
      | (tr, Returns a) \<Rightarrow> (case k a of (tr', out) \<Rightarrow> (tr @ tr', out)))"

definition after_launch :: "world \<Rightarrow> event list \<times> outcome" where
  "after_launch w =
     run_then (print ''[worker] Waiting for FastAPI health...'') (\<lambda>_.
     run_then (wait_healthy w) (\<lambda>healthy.
       if \<not> healthy then
         run_then (print ''[worker] ERROR: FastAPI did not become healthy in 60s'') (\<lambda>_.
         run_then (print_log_tail w) (\<lambda>_.
         ([], Exit 1)))
       else
         run_then (print ''[worker] FastAPI is healthy!'') (\<lambda>_.
         run_then (call ImportVastai (import_vastai w)) (\<lambda>_.
         ([], Handoff config)))))"

definition controller :: "world \<Rightarrow> event list \<times> outcome" where
  "controller w =
     run_then (start_xvfb w) (\<lambda>_.
     run_then (install_ca w) (\<lambda>_.
     run_then (fst (find_service_dir w service_candidates),
               Returns (snd (find_service_dir w service_candidates))) (\<lambda>SERVICE_DIR.
       case SERVICE_DIR of
         None \<Rightarrow>
           run_then
             (print ''[worker] ERROR: Cannot find app_server.py in /root/service or /workspace'')
             (\<lambda>_. ([], Exit 1))
       | Some d \<Rightarrow>
           run_then (start_server w d) (\<lambda>_.
           after_launch w))))"

subsection \<open>Reading a trace\<close>

definition polls :: "event list \<Rightarrow> (string \<times> nat) list" where
  "polls tr = concat (map (\<lambda>ev. case ev of Urlopen u t \<Rightarrow> [(u, t)] | _ \<Rightarrow> []) tr)"

definition sleeps :: "event list \<Rightarrow> nat list" where
  "sleeps tr = concat (map (\<lambda>ev. case ev of Sleep n \<Rightarrow> [n] | _ \<Rightarrow> []) tr)"

definition spawns :: "event list \<Rightarrow> popen_call list" where
  "spawns tr = concat (map (\<lambda>ev. case ev of Spawn c \<Rightarrow> [c] | _ \<Rightarrow> []) tr)"

definition runs :: "event list \<Rightarrow> string list list" where
  "runs tr = concat (map (\<lambda>ev. case ev of Run c t \<Rightarrow> [c] | _ \<Rightarrow> []) tr)"

definition printed :: "event list \<Rightarrow> string list" where
  "printed tr = concat (map (\<lambda>ev. case ev of Print s \<Rightarrow> [s] | _ \<Rightarrow> []) tr)"

text \<open>The launches of the backend: the \<^verbatim>\<open>Popen\<close> calls that run \<^verbatim>\<open>app_server.py\<close>.\<close>

definition backend_launches :: "event list \<Rightarrow> popen_call list" where
  "backend_launches tr = filter (\<lambda>c. ''app_server.py'' \<in> set (args c)) (spawns tr)"

text \<open>
  The environment a child gets: \<^verbatim>\<open>env\<close> when given, the parent's \<^verbatim>\<open>os.environ\<close> otherwise.
\<close>

definition child_environ :: "(string \<rightharpoonup> string) \<Rightarrow> popen_call \<Rightarrow> (string \<rightharpoonup> string)" where
  "child_environ parent c = (case env c of None \<Rightarrow> parent | Some e \<Rightarrow> e)"

text \<open>The value of \<^verbatim>\<open>DISPLAY\<close> in the environment of each backend launched by a run.\<close>

definition backend_display :: "world \<Rightarrow> string option list" where
  "backend_display w =
     map (\<lambda>c. child_environ (os_environ w) c ''DISPLAY'') (backend_launches (fst (controller w)))"

subsection \<open>What the specification says of the Supervisor\<close>

text \<open>
  These two follow the words of the specification, not the code: the first candidate
  directory that contains the entry point, and the first candidate interpreter that exists,
  else the controller's own.
\<close>

definition spec_service_dir :: "world \<Rightarrow> string option" where
  "spec_service_dir w =
     List.find (\<lambda>dir. path_exists w (dir @ ''/app_server.py'')) [''/root/service'', ''/workspace'']"

definition spec_interpreter :: "world \<Rightarrow> string" where
  "spec_interpreter w =
     (case List.find (path_exists w) [''/usr/bin/python3'', ''/usr/local/bin/python3''] of
        Some p \<Rightarrow> p
      | None \<Rightarrow> sys_executable w)"

subsection \<open>Sample nodes\<close>

text \<open>
  \<open>node_ok\<close>: the entry point is in the second candidate directory, no system interpreter
  exists, Xvfb is not running yet, and the backend answers 200 on the third poll (after a
  refused connection and a 204). The others differ from it in one field.
\<close>

definition node_ok :: world where
  "node_ok =
     \<lparr>environ = [''HOME'' \<mapsto> ''/root''],
      sys_executable = ''/venv/main/bin/python'',
      path_exists = (\<lambda>p. p = ''/workspace/app_server.py''),
      pgrep = Returns 1,
      xvfb_popen = Returns (),
      certutil = Returns 0,
      makedirs = Returns (),
      open_log_w = Returns (),
      server_popen = Returns (),
      health = (\<lambda>i. if i = 0 then Raises (Exc ''URLError'' ''<urlopen error [Errno 111] Connection refused>'')
                     else if i = 1 then Returns 204 else Returns 200),
      flush = Returns (),
      open_log_r = Returns (),
      readlines = Returns (replicate 25 ''INFO: waiting for browser''),
      import_vastai = Returns ()\<rparr>"

definition node_down :: world where
  "node_down =
     node_ok\<lparr>health := (\<lambda>i. Raises (Exc ''URLError'' ''<urlopen error [Errno 111] Connection refused>''))\<rparr>"

definition node_empty :: world where
  "node_empty = node_ok\<lparr>path_exists := (\<lambda>p. False)\<rparr>"

definition node_display0 :: world where
  "node_display0 = node_ok\<lparr>environ := [''HOME'' \<mapsto> ''/root'', ''DISPLAY'' \<mapsto> '':0'']\<rparr>"

section \<open>Auxiliary facts\<close>


lemma poll_once_eq: "poll_once r = ([Urlopen health_url 2], Returns (r = Returns 200))"
  by (cases r) (simp_all add: poll_once_def try_except_def io_bind_def call_def)

lemma health_loop_Cons:
  "health_loop h n (i # rest) =
     (if h n = Returns 200 then ([Urlopen health_url 2], Returns True)
      else (Urlopen health_url 2 # Sleep 1 # fst (health_loop h (Suc n) rest),
            snd (health_loop h (Suc n) rest)))"
  by (simp add: poll_once_eq io_bind_def sleep_def split: prod.splits result.splits)

lemma health_loop_first_ok:
  "k < length xs \<Longrightarrow> h (n + k) = Returns 200 \<Longrightarrow> (\<forall>j<k. h (n + j) \<noteq> Returns 200) \<Longrightarrow>
   health_loop h n xs =
     (concat (replicate k [Urlopen health_url 2, Sleep 1]) @ [Urlopen health_url 2], Returns True)"
proof (induction xs arbitrary: n k)
  case Nil
  then show ?case by simp
next
  case (Cons i rest)
  show ?case
  proof (cases k)
    case 0
    with Cons.prems show ?thesis by (simp add: health_loop_Cons del: health_loop.simps)
  next
    case (Suc k')
    from Cons.prems Suc have n0: "h n \<noteq> Returns 200" by (metis add.right_neutral zero_less_Suc)
    from Cons.prems Suc have a: "k' < length rest" by simp
    from Cons.prems Suc have b: "h (Suc n + k') = Returns 200" by simp
    from Cons.prems Suc have c: "\<forall>j<k'. h (Suc n + j) \<noteq> Returns 200"
      by (metis Suc_less_eq add_Suc_shift)
    from Cons.IH [OF a b c] n0 Suc show ?thesis by (simp add: health_loop_Cons del: health_loop.simps)
  qed
qed

lemma health_loop_never:
  "(\<forall>j<length xs. h (n + j) \<noteq> Returns 200) \<Longrightarrow>
   health_loop h n xs =
     (concat (replicate (length xs) [Urlopen health_url 2, Sleep 1]), Returns False)"
proof (induction xs arbitrary: n)
  case Nil
  then show ?case by simp
next
  case (Cons i rest)
  from Cons.prems have n0: "h n \<noteq> Returns 200" by (metis add.right_neutral length_greater_0_conv list.distinct(1))
  from Cons.prems have c: "\<forall>j<length rest. h (Suc n + j) \<noteq> Returns 200"
    by (metis Suc_less_eq add_Suc_shift length_Cons)
  from Cons.IH [OF c] n0 show ?case by (simp add: health_loop_Cons del: health_loop.simps)
qed

lemma health_loop_cong_200:
  "(\<forall>i. (h1 i = Returns 200) = (h2 i = Returns 200)) \<Longrightarrow> health_loop h1 n xs = health_loop h2 n xs"
  by (induction xs arbitrary: n) (simp_all add: health_loop_Cons del: health_loop.simps(2))

lemma polls_ticks: "polls (concat (replicate k [Urlopen u t, Sleep s]) @ rest) = replicate k (u, t) @ polls rest"
  by (induction k) (simp_all add: polls_def)

lemma sleeps_ticks: "sleeps (concat (replicate k [Urlopen u t, Sleep s]) @ rest) = replicate k s @ sleeps rest"
  by (induction k) (simp_all add: sleeps_def)


lemma start_xvfb_returns: "snd (start_xvfb w) = Returns ()"
  by (cases "pgrep w"; cases "xvfb_popen w")
     (simp_all add: start_xvfb_def try_except_def io_bind_def call_def print_def sleep_def)

lemma install_ca_returns: "snd (install_ca w) = Returns ()"
  by (cases "certutil w")
     (simp_all add: install_ca_def os_path_exists_def try_except_def io_bind_def call_def
        print_def pass_def)

lemma print_log_tail_returns: "snd (print_log_tail w) = Returns ()"
  by (cases "flush w"; cases "open_log_r w"; cases "readlines w")
     (simp_all add: print_log_tail_def try_except_def io_bind_def call_def print_lines_def
        pass_def)

lemma start_xvfb_trace:
  "fst (start_xvfb w) =
     (case pgrep w of
        Raises e \<Rightarrow> [Run pgrep_cmd 5, Print (''[worker] Xvfb check failed: '' @ exc_str e)]
      | Returns rc \<Rightarrow>
          if rc \<noteq> 0 then
            (case xvfb_popen w of
               Raises e \<Rightarrow> [Run pgrep_cmd 5, Print ''[worker] Starting Xvfb...'', Spawn xvfb_call,
                            Print (''[worker] Xvfb check failed: '' @ exc_str e)]
             | Returns u \<Rightarrow> [Run pgrep_cmd 5, Print ''[worker] Starting Xvfb...'', Spawn xvfb_call,
                             Sleep 1])
          else [Run pgrep_cmd 5, Print ''[worker] Xvfb already running''])"
  by (cases "pgrep w"; cases "xvfb_popen w")
     (simp_all add: start_xvfb_def try_except_def io_bind_def call_def print_def sleep_def)

lemma install_ca_trace:
  "fst (install_ca w) =
     (if path_exists w CA_CERT then
        (case certutil w of
           Raises e \<Rightarrow> [PathExists CA_CERT, Run certutil_cmd 10]
         | Returns rc \<Rightarrow> [PathExists CA_CERT, Run certutil_cmd 10,
                          Print ''[worker] mitmproxy CA installed''])
      else [PathExists CA_CERT])"
  by (cases "certutil w")
     (simp_all add: install_ca_def os_path_exists_def try_except_def io_bind_def call_def
        print_def pass_def)

lemma print_log_tail_trace:
  "fst (print_log_tail w) =
     (case flush w of
        Raises e \<Rightarrow> [Flush]
      | Returns u \<Rightarrow>
          (case open_log_r w of
             Raises e \<Rightarrow> [Flush, OpenRead log_path]
           | Returns u \<Rightarrow>
               (case readlines w of
                  Raises e \<Rightarrow> [Flush, OpenRead log_path, Readlines]
                | Returns lines \<Rightarrow>
                    Flush # OpenRead log_path # Readlines #
                    map (\<lambda>line. Print (''  '' @ rstrip line)) (last_lines 20 lines))))"
  by (cases "flush w"; cases "open_log_r w"; cases "readlines w")
     (simp_all add: print_log_tail_def try_except_def io_bind_def call_def print_lines_def
        pass_def)

lemma resolve_python_eq:
  "resolve_python w =
     ([PathExists ''/usr/bin/python3'',
       PathExists (if path_exists w ''/usr/bin/python3'' then ''/usr/bin/python3''
                   else ''/usr/local/bin/python3'')],
      Returns (if path_exists w ''/usr/bin/python3'' then ''/usr/bin/python3''
               else if path_exists w ''/usr/local/bin/python3'' then ''/usr/local/bin/python3''
               else sys_executable w))"
  by (simp add: resolve_python_def os_path_exists_def io_bind_def call_def Let_def)

lemma start_server_eq:
  "start_server w d =
     (case makedirs w of
        Raises e \<Rightarrow> ([Print (''[worker] Starting FastAPI from '' @ d @ ''...''),
                      Makedirs ''/var/log/image-gen''], Raises e)
      | Returns u \<Rightarrow>
          (case open_log_w w of
             Raises e \<Rightarrow> ([Print (''[worker] Starting FastAPI from '' @ d @ ''...''),
                           Makedirs ''/var/log/image-gen'', OpenWrite log_path], Raises e)
           | Returns u \<Rightarrow>
               (Print (''[worker] Starting FastAPI from '' @ d @ ''...'') #
                Makedirs ''/var/log/image-gen'' # OpenWrite log_path #
                fst (resolve_python w) @
                [Spawn (server_call (os_environ w)
                   (case snd (resolve_python w) of Returns p \<Rightarrow> p | Raises e \<Rightarrow> []) d)],
                server_popen w)))"
  by (cases "makedirs w"; cases "open_log_w w")
     (simp_all add: start_server_def resolve_python_eq io_bind_def call_def print_def)

lemma find_service_dir_candidates:
  "find_service_dir w service_candidates =
     (if path_exists w ''/root/service/app_server.py''
      then ([PathExists ''/root/service/app_server.py''], Some ''/root/service'')
      else if path_exists w ''/workspace/app_server.py''
      then ([PathExists ''/root/service/app_server.py'', PathExists ''/workspace/app_server.py''],
            Some ''/workspace'')
      else ([PathExists ''/root/service/app_server.py'', PathExists ''/workspace/app_server.py''],
            None))"
  by (simp add: service_candidates_def os_path_join_def)


lemma run_then_Returns: "snd m = Returns a \<Longrightarrow> run_then m k = (fst m @ fst (k a), snd (k a))"
  by (cases m) (simp add: run_then_def split: prod.splits)

lemma run_then_Raises: "snd m = Raises e \<Longrightarrow> run_then m k = (fst m, Uncaught e)"
  by (cases m) (simp add: run_then_def)

lemma run_then_print: "run_then (print s) k = (Print s # fst (k ()), snd (k ()))"
  by (simp add: run_then_def print_def split: prod.splits)

lemma run_then_call:
  "run_then (call ev r) k =
     (case r of Raises e \<Rightarrow> ([ev], Uncaught e) | Returns a \<Rightarrow> (ev # fst (k a), snd (k a)))"
  by (cases r) (simp_all add: run_then_def call_def split: prod.splits)

lemma health_loop_returns: "\<exists>b. snd (health_loop h n xs) = Returns b"
  by (induction xs arbitrary: n) (auto simp add: health_loop_Cons simp del: health_loop.simps(2))

lemma wait_healthy_returns: "\<exists>b. snd (wait_healthy w) = Returns b"
  by (simp add: wait_healthy_def health_loop_returns)

lemma after_launch_eq:
  "snd (wait_healthy w) = Returns healthy \<Longrightarrow>
   after_launch w =
     (Print ''[worker] Waiting for FastAPI health...'' # fst (wait_healthy w) @
      (if \<not> healthy
       then Print ''[worker] ERROR: FastAPI did not become healthy in 60s'' # fst (print_log_tail w)
       else [Print ''[worker] FastAPI is healthy!'', ImportVastai]),
      if \<not> healthy then Exit 1
      else (case import_vastai w of Returns u \<Rightarrow> Handoff config | Raises e \<Rightarrow> Uncaught e))"
  by (cases "import_vastai w")
     (simp_all add: after_launch_def run_then_print run_then_Returns [of "wait_healthy w"]
        run_then_Returns [OF print_log_tail_returns] run_then_call)

lemma controller_eq:
  "controller w =
     (fst (start_xvfb w) @ fst (install_ca w) @ fst (find_service_dir w service_candidates) @
      (case snd (find_service_dir w service_candidates) of
         None \<Rightarrow> [Print ''[worker] ERROR: Cannot find app_server.py in /root/service or /workspace'']
       | Some d \<Rightarrow>
           fst (start_server w d) @
           (case snd (start_server w d) of Raises e \<Rightarrow> [] | Returns u \<Rightarrow> fst (after_launch w))),
      (case snd (find_service_dir w service_candidates) of
         None \<Rightarrow> Exit 1
       | Some d \<Rightarrow>
           (case snd (start_server w d) of
              Raises e \<Rightarrow> Uncaught e
            | Returns u \<Rightarrow> snd (after_launch w))))"
proof (cases "snd (find_service_dir w service_candidates)")
  case None
  then show ?thesis
    by (simp add: controller_def run_then_Returns [OF start_xvfb_returns]
        run_then_Returns [OF install_ca_returns] run_then_print run_then_def [of "(_, _)"])
next
  case (Some d)
  show ?thesis
  proof (cases "snd (start_server w d)")
    case (Returns u)
    with Some show ?thesis
      by (simp add: controller_def run_then_Returns [OF start_xvfb_returns]
          run_then_Returns [OF install_ca_returns] run_then_Returns [of "start_server w d"]
          run_then_def [of "(_, _)"] split: prod.splits)
  next
    case (Raises e)
    with Some show ?thesis
      by (simp add: controller_def run_then_Returns [OF start_xvfb_returns]
          run_then_Returns [OF install_ca_returns] run_then_Raises [of "start_server w d"]
          run_then_def [of "(_, _)"] split: prod.splits)
  qed
qed


lemma polls_append: "polls (a @ b) = polls a @ polls b" by (simp add: polls_def)
lemma spawns_append: "spawns (a @ b) = spawns a @ spawns b" by (simp add: spawns_def)
lemma runs_append: "runs (a @ b) = runs a @ runs b" by (simp add: runs_def)
lemma printed_append: "printed (a @ b) = printed a @ printed b" by (simp add: printed_def)

lemma readers_Nil: "polls [] = []" "spawns [] = []" "runs [] = []" "printed [] = []" "sleeps [] = []"
  by (simp_all add: polls_def spawns_def runs_def printed_def sleeps_def)

lemma readers_Cons:
  "polls (ev # tr) = (case ev of Urlopen u t \<Rightarrow> [(u, t)] | _ \<Rightarrow> []) @ polls tr"
  "spawns (ev # tr) = (case ev of Spawn c \<Rightarrow> [c] | _ \<Rightarrow> []) @ spawns tr"
  "runs (ev # tr) = (case ev of Run c t \<Rightarrow> [c] | _ \<Rightarrow> []) @ runs tr"
  "printed (ev # tr) = (case ev of Print s \<Rightarrow> [s] | _ \<Rightarrow> []) @ printed tr"
  "sleeps (ev # tr) = (case ev of Sleep n \<Rightarrow> [n] | _ \<Rightarrow> []) @ sleeps tr"
  by (simp_all add: polls_def spawns_def runs_def printed_def sleeps_def)

lemma readers_map_Print:
  "polls (map (\<lambda>x. Print (f x)) xs) = []"
  "spawns (map (\<lambda>x. Print (f x)) xs) = []"
  "runs (map (\<lambda>x. Print (f x)) xs) = []"
  "printed (map (\<lambda>x. Print (f x)) xs) = map f xs"
  by (induction xs) (simp_all add: polls_def spawns_def runs_def printed_def)

lemma readers_start_xvfb:
  "polls (fst (start_xvfb w)) = []"
  "runs (fst (start_xvfb w)) = [pgrep_cmd]"
  "spawns (fst (start_xvfb w)) =
     (case pgrep w of Raises e \<Rightarrow> [] | Returns rc \<Rightarrow> if rc \<noteq> 0 then [xvfb_call] else [])"
  by (cases "pgrep w"; cases "xvfb_popen w";
      simp add: start_xvfb_trace polls_def runs_def spawns_def)+

lemma readers_install_ca:
  "polls (fst (install_ca w)) = []"
  "runs (fst (install_ca w)) = (if path_exists w CA_CERT then [certutil_cmd] else [])"
  "spawns (fst (install_ca w)) = []"
  by (cases "certutil w"; simp add: install_ca_trace polls_def runs_def spawns_def)+

lemma readers_find_service_dir:
  "polls (fst (find_service_dir w cs)) = []"
  "runs (fst (find_service_dir w cs)) = []"
  "spawns (fst (find_service_dir w cs)) = []"
  by (induction cs; simp add: polls_def runs_def spawns_def split: prod.splits)+

lemma readers_start_server:
  "polls (fst (start_server w d)) = []"
  "runs (fst (start_server w d)) = []"
  "spawns (fst (start_server w d)) =
     (case makedirs w of
        Raises e \<Rightarrow> []
      | Returns u \<Rightarrow>
          (case open_log_w w of
             Raises e \<Rightarrow> []
           | Returns u \<Rightarrow> [server_call (os_environ w) (spec_interpreter w) d]))"
  by (cases "makedirs w"; cases "open_log_w w";
      simp add: start_server_eq resolve_python_eq spec_interpreter_def polls_def runs_def spawns_def)+

lemma readers_print_log_tail:
  "polls (fst (print_log_tail w)) = []"
  "runs (fst (print_log_tail w)) = []"
  "spawns (fst (print_log_tail w)) = []"
  by (cases "flush w"; cases "open_log_r w"; cases "readlines w";
      simp add: print_log_tail_trace readers_map_Print polls_def runs_def spawns_def)+

lemma printed_print_log_tail:
  "printed (fst (print_log_tail w)) =
     (case flush w of
        Raises e \<Rightarrow> []
      | Returns u \<Rightarrow>
          (case open_log_r w of
             Raises e \<Rightarrow> []
           | Returns u \<Rightarrow>
               (case readlines w of
                  Raises e \<Rightarrow> []
                | Returns lines \<Rightarrow> map (\<lambda>line. ''  '' @ rstrip line) (last_lines 20 lines))))"
  by (cases "flush w"; cases "open_log_r w"; cases "readlines w";
      simp add: print_log_tail_trace readers_map_Print readers_Nil readers_Cons)

lemma readers_health_loop:
  "runs (fst (health_loop h n xs)) = []"
  "spawns (fst (health_loop h n xs)) = []"
  by (induction xs arbitrary: n;
      simp add: health_loop_Cons runs_def spawns_def del: health_loop.simps(2))+

lemma readers_after_launch:
  "runs (fst (after_launch w)) = []"
  "spawns (fst (after_launch w)) = []"
proof -
  from wait_healthy_returns obtain b where b: "snd (wait_healthy w) = Returns b" by blast
  have r: "runs (fst (wait_healthy w)) = []" and s: "spawns (fst (wait_healthy w)) = []"
    by (simp_all add: wait_healthy_def readers_health_loop)
  show "runs (fst (after_launch w)) = []"
    using r readers_print_log_tail(2) [of w]
    by (simp add: after_launch_eq [OF b] runs_def)
  show "spawns (fst (after_launch w)) = []"
    using s readers_print_log_tail(3) [of w]
    by (simp add: after_launch_eq [OF b] spawns_def)
qed

lemma length_last_lines: "length (last_lines k xs) = min k (length xs)"
  by (simp add: last_lines_def)

lemma wait_healthy_never:
  assumes "\<forall>i<60. health w i \<noteq> Returns 200"
  shows "wait_healthy w = (concat (replicate 60 [Urlopen health_url 2, Sleep 1]), Returns False)"
  using health_loop_never [of "[0..<60]" "health w" 0] assms by (simp add: wait_healthy_def)

lemma start_server_returns:
  "makedirs w = Returns () \<Longrightarrow> open_log_w w = Returns () \<Longrightarrow> server_popen w = Returns () \<Longrightarrow>
   snd (start_server w d) = Returns ()"
  by (simp add: start_server_eq)

lemma found_service_dir:
  "path_exists w ''/root/service/app_server.py'' \<or> path_exists w ''/workspace/app_server.py'' \<Longrightarrow>
   \<exists>d. snd (find_service_dir w service_candidates) = Some d"
  by (auto simp add: find_service_dir_candidates)

lemma controller_on_timeout:
  assumes found: "snd (find_service_dir w service_candidates) = Some d"
    and ok: "makedirs w = Returns ()" "open_log_w w = Returns ()" "server_popen w = Returns ()"
    and never: "\<forall>i<60. health w i \<noteq> Returns 200"
  shows "controller w =
     (fst (start_xvfb w) @ fst (install_ca w) @ fst (find_service_dir w service_candidates) @
      fst (start_server w d) @
      Print ''[worker] Waiting for FastAPI health...'' #
      concat (replicate 60 [Urlopen health_url 2, Sleep 1]) @
      Print ''[worker] ERROR: FastAPI did not become healthy in 60s'' # fst (print_log_tail w),
      Exit 1)"
proof -
  have wh: "snd (wait_healthy w) = Returns False"
    and wt: "fst (wait_healthy w) = concat (replicate 60 [Urlopen health_url 2, Sleep 1])"
    by (simp_all add: wait_healthy_never [OF never])
  show ?thesis
    by (simp add: controller_eq found start_server_returns [OF ok] after_launch_eq [OF wh] wt)
qed

lemma find_service_dir_spec: "snd (find_service_dir w service_candidates) = spec_service_dir w"
  by (simp add: find_service_dir_candidates spec_service_dir_def)

lemma backend_launches_controller:
  "backend_launches (fst (controller w)) =
     (case spec_service_dir w of
        None \<Rightarrow> []
      | Some d \<Rightarrow>
          (case makedirs w of
             Raises e \<Rightarrow> []
           | Returns u \<Rightarrow>
               (case open_log_w w of
                  Raises e \<Rightarrow> []
                | Returns u \<Rightarrow> [server_call (os_environ w) (spec_interpreter w) d])))"
proof -
  have x: "filter (\<lambda>c. ''app_server.py'' \<in> set (args c)) (spawns (fst (start_xvfb w))) = []"
    by (simp add: readers_start_xvfb xvfb_call_def split: result.splits)
  show ?thesis
    by (simp add: backend_launches_def controller_eq spawns_append x readers_install_ca
        readers_find_service_dir readers_start_server readers_after_launch readers_Cons
        readers_Nil find_service_dir_spec server_call_def
        split: option.splits result.splits)
qed

lemma polls_health_loop:
  "polls (fst (health_loop h n xs)) = replicate (length (polls (fst (health_loop h n xs)))) (health_url, 2)"
  by (induction xs arbitrary: n)
     (simp_all add: health_loop_Cons readers_Nil readers_Cons del: health_loop.simps(2))

lemma health_update_start_xvfb: "start_xvfb (w\<lparr>health := h\<rparr>) = start_xvfb w"
  by (simp add: start_xvfb_def cong: if_cong)

lemma health_update_install_ca: "install_ca (w\<lparr>health := h\<rparr>) = install_ca w"
  by (simp add: install_ca_def os_path_exists_def cong: if_cong)

lemma health_update_find_service_dir:
  "find_service_dir (w\<lparr>health := h\<rparr>) cs = find_service_dir w cs"
  by (induction cs) simp_all

lemma health_update_start_server: "start_server (w\<lparr>health := h\<rparr>) d = start_server w d"
  by (simp add: start_server_def resolve_python_def os_path_exists_def os_environ_def
      cong: if_cong)

lemma health_update_print_log_tail: "print_log_tail (w\<lparr>health := h\<rparr>) = print_log_tail w"
  by (simp add: print_log_tail_def)

lemma controller_handoff_config: "snd (controller w) = Handoff c \<Longrightarrow> c = config"
proof -
  assume a: "snd (controller w) = Handoff c"
  from wait_healthy_returns obtain b where b: "snd (wait_healthy w) = Returns b" by blast
  from a show "c = config"
    by (simp add: controller_eq after_launch_eq [OF b]
        split: option.splits result.splits if_splits)
qed

lemma controller_reaches_handoff:
  assumes "path_exists w ''/root/service/app_server.py'' \<or> path_exists w ''/workspace/app_server.py''"
    and "makedirs w = Returns ()" and "open_log_w w = Returns ()" and "server_popen w = Returns ()"
    and "N < 60" and "health w N = Returns 200" and "\<forall>i<N. health w i \<noteq> Returns 200"
    and "import_vastai w = Returns ()"
  shows "snd (controller w) = Handoff config"
proof -
  from found_service_dir [OF assms(1)] obtain d
    where d: "snd (find_service_dir w service_candidates) = Some d" by blast
  from assms(5) have k: "N < length [0..<60]" by simp
  from assms(6,7) have "health w (0 + N) = Returns 200"
    and "\<forall>j<N. health w (0 + j) \<noteq> Returns 200" by simp_all
  from health_loop_first_ok [OF k this]
  have wh: "snd (wait_healthy w) = Returns True" by (simp add: wait_healthy_def)
  show ?thesis
    by (simp add: controller_eq d start_server_returns [OF assms(2-4)] after_launch_eq [OF wh]
        assms(8))
qed

section \<open>The claims\<close>

text \<open>
  Claim C1. For every \<open>N\<close> from 1 to 60, if the \<open>N\<close>th call of \<^verbatim>\<open>urlopen\<close> is the first to
  return status 200, the health loop makes exactly \<open>N\<close> calls, ends with
  \<^verbatim>\<open>healthy = True\<close> directly after the \<open>N\<close>th call, and has slept \<open>N - 1\<close> times, one second
  each.
\<close>

theorem health_gate_ready_on_Nth_poll:
  assumes "1 \<le> N" and "N \<le> 60"
    and "health w (N - 1) = Returns 200"
    and "\<forall>i<N - 1. health w i \<noteq> Returns 200"
  shows "wait_healthy w =
           (concat (replicate (N - 1) [Urlopen health_url 2, Sleep 1]) @ [Urlopen health_url 2],
            Returns True)
         \<and> length (polls (fst (wait_healthy w))) = N
         \<and> sleeps (fst (wait_healthy w)) = replicate (N - 1) 1
         \<and> sum_list (sleeps (fst (wait_healthy w))) = N - 1"
proof -
  from assms have k: "N - 1 < length [0..<60]" by simp
  from assms have "health w (0 + (N - 1)) = Returns 200"
    and "\<forall>j<N - 1. health w (0 + j) \<noteq> Returns 200" by simp_all
  from health_loop_first_ok [OF k this]
  have eq: "wait_healthy w =
      (concat (replicate (N - 1) [Urlopen health_url 2, Sleep 1]) @ [Urlopen health_url 2],
       Returns True)"
    by (simp add: wait_healthy_def)
  have p: "polls [Urlopen health_url 2] = [(health_url, 2)]" by (simp add: polls_def)
  have s: "sleeps [Urlopen health_url 2] = []" by (simp add: sleeps_def)
  from assms show ?thesis
    by (simp add: eq polls_ticks sleeps_ticks p s sum_list_replicate)
qed

theorem health_gate_ready_on_Nth_poll_witness:
  "wait_healthy node_ok =
     ([Urlopen health_url 2, Sleep 1, Urlopen health_url 2, Sleep 1, Urlopen health_url 2],
      Returns True)
   \<and> length (polls (fst (wait_healthy node_ok))) = 3
   \<and> sleeps (fst (wait_healthy node_ok)) = [1, 1]
   \<and> sum_list (sleeps (fst (wait_healthy node_ok))) = 2"
proof -
  have h: "\<forall>i<3 - 1. health node_ok i \<noteq> Returns 200"
    by (auto simp add: node_ok_def)
  have g: "health node_ok (3 - 1) = Returns 200" by (simp add: node_ok_def)
  have b: "1 \<le> (3::nat)" "(3::nat) \<le> 60" by simp_all
  from health_gate_ready_on_Nth_poll [OF b g h] show ?thesis
    by (simp add: numeral_2_eq_2 polls_def sleeps_def)
qed

text \<open>
  Claim C2. When the backend is launched and none of the 60 calls of \<^verbatim>\<open>urlopen\<close>
  returns status 200, the script makes exactly 60 calls, then prints the error line and
  what the diagnostics print, and ends with \<^verbatim>\<open>sys.exit(1)\<close>. The diagnostics print the last
  20 lines of the log (all of them when there are fewer), each as two blanks and the line
  without its trailing whitespace, and nothing when flushing, opening or reading fails: at
  most 20 lines in all.
\<close>

theorem health_gate_timeout_exits_1:
  assumes "path_exists w ''/root/service/app_server.py'' \<or> path_exists w ''/workspace/app_server.py''"
    and "makedirs w = Returns ()" and "open_log_w w = Returns ()" and "server_popen w = Returns ()"
    and "\<forall>i<60. health w i \<noteq> Returns 200"
  shows "polls (fst (controller w)) = replicate 60 (health_url, 2)
       \<and> snd (controller w) = Exit 1
       \<and> (\<exists>before. fst (controller w) =
             before @ Print ''[worker] ERROR: FastAPI did not become healthy in 60s'' #
             fst (print_log_tail w)
           \<and> polls before = replicate 60 (health_url, 2))
       \<and> printed (fst (print_log_tail w)) =
           (case flush w of
              Raises e \<Rightarrow> []
            | Returns u \<Rightarrow>
                (case open_log_r w of
                   Raises e \<Rightarrow> []
                 | Returns u \<Rightarrow>
                     (case readlines w of
                        Raises e \<Rightarrow> []
                      | Returns lines \<Rightarrow>
                          map (\<lambda>line. ''  '' @ rstrip line) (last_lines 20 lines))))
       \<and> length (printed (fst (print_log_tail w))) \<le> 20
       \<and> length (last_lines 20 lines) = min 20 (length lines)
       \<and> take (length lines - 20) lines @ last_lines 20 lines = lines"
proof -
  from found_service_dir [OF assms(1)] obtain d
    where d: "snd (find_service_dir w service_candidates) = Some d" by blast
  note eq = controller_on_timeout [OF d assms(2-5)]
  let ?before = "fst (start_xvfb w) @ fst (install_ca w) @
      fst (find_service_dir w service_candidates) @ fst (start_server w d) @
      Print ''[worker] Waiting for FastAPI health...'' #
      concat (replicate 60 [Urlopen health_url 2, Sleep 1])"
  have pb: "polls ?before = replicate 60 (health_url, 2)"
    using polls_ticks [of 60 health_url 2 1 "[]"]
    by (simp add: polls_append readers_Cons readers_Nil readers_start_xvfb readers_install_ca
        readers_find_service_dir readers_start_server)
  have a: "fst (controller w) =
      ?before @ Print ''[worker] ERROR: FastAPI did not become healthy in 60s'' #
      fst (print_log_tail w)"
    by (simp add: eq)
  have p: "polls (fst (controller w)) = replicate 60 (health_url, 2)"
    using pb by (simp only: a polls_append readers_Cons readers_print_log_tail) simp
  have len: "length (printed (fst (print_log_tail w))) \<le> 20"
    by (simp add: printed_print_log_tail length_last_lines split: result.splits)
  from a pb have ex: "\<exists>before. fst (controller w) =
             before @ Print ''[worker] ERROR: FastAPI did not become healthy in 60s'' #
             fst (print_log_tail w)
           \<and> polls before = replicate 60 (health_url, 2)"
    by blast
  have x: "snd (controller w) = Exit 1" by (simp add: eq)
  have l1: "length (last_lines 20 lines) = min 20 (length lines)" by (rule length_last_lines)
  have l2: "take (length lines - 20) lines @ last_lines 20 lines = lines"
    by (simp add: last_lines_def)
  from p x ex len l1 l2 printed_print_log_tail [of w] show ?thesis by blast
qed

theorem health_gate_timeout_exits_1_witness:
  "polls (fst (controller node_down)) = replicate 60 (health_url, 2)
   \<and> snd (controller node_down) = Exit 1
   \<and> printed (fst (print_log_tail node_down)) = replicate 20 ''  INFO: waiting for browser''
   \<and> length (printed (fst (print_log_tail node_down))) \<le> 20"
proof -
  have a: "path_exists node_down ''/root/service/app_server.py'' \<or>
           path_exists node_down ''/workspace/app_server.py''"
    by (simp add: node_down_def node_ok_def)
  have b: "makedirs node_down = Returns ()" "open_log_w node_down = Returns ()"
    "server_popen node_down = Returns ()"
    by (simp_all add: node_down_def node_ok_def)
  have c: "\<forall>i<60. health node_down i \<noteq> Returns 200"
    by (simp add: node_down_def node_ok_def)
  have r: "rstrip ''INFO: waiting for browser'' = ''INFO: waiting for browser''"
    by (simp add: rstrip_def isspace_def)
  have f: "flush node_down = Returns ()" "open_log_r node_down = Returns ()"
    "readlines node_down = Returns (replicate 25 ''INFO: waiting for browser'')"
    by (simp_all add: node_down_def node_ok_def)
  from health_gate_timeout_exits_1 [OF a b c, of "[]"] show ?thesis
    by (simp add: f last_lines_def r)
qed

text \<open>
  Claim C3. When \<^verbatim>\<open>app_server.py\<close> is in neither \<^verbatim>\<open>/root/service\<close> nor \<^verbatim>\<open>/workspace\<close>,
  the script ends with \<^verbatim>\<open>sys.exit(1)\<close> right after the error line: the backend is never
  launched, and the only process it may have started is Xvfb.
\<close>

theorem missing_entry_point_exits_without_launch:
  assumes "\<not> path_exists w ''/root/service/app_server.py''"
    and "\<not> path_exists w ''/workspace/app_server.py''"
  shows "controller w =
           (fst (start_xvfb w) @ fst (install_ca w) @
            [PathExists ''/root/service/app_server.py'', PathExists ''/workspace/app_server.py'',
             Print ''[worker] ERROR: Cannot find app_server.py in /root/service or /workspace''],
            Exit 1)
         \<and> backend_launches (fst (controller w)) = []
         \<and> spawns (fst (controller w)) = spawns (fst (start_xvfb w))"
proof -
  from assms have f: "find_service_dir w service_candidates =
      ([PathExists ''/root/service/app_server.py'', PathExists ''/workspace/app_server.py''], None)"
    by (simp add: find_service_dir_candidates)
  have c: "controller w =
           (fst (start_xvfb w) @ fst (install_ca w) @
            [PathExists ''/root/service/app_server.py'', PathExists ''/workspace/app_server.py'',
             Print ''[worker] ERROR: Cannot find app_server.py in /root/service or /workspace''],
            Exit 1)"
    by (simp add: controller_eq f)
  from assms have n: "spec_service_dir w = None" by (simp add: spec_service_dir_def)
  have b: "backend_launches (fst (controller w)) = []"
    by (simp add: backend_launches_controller n)
  have s: "spawns (fst (controller w)) = spawns (fst (start_xvfb w))"
    by (simp add: c spawns_append readers_install_ca readers_Cons readers_Nil)
  from c b s show ?thesis by blast
qed

theorem missing_entry_point_exits_without_launch_witness:
  "snd (controller node_empty) = Exit 1
   \<and> backend_launches (fst (controller node_empty)) = []
   \<and> spawns (fst (controller node_empty)) = [xvfb_call]"
proof -
  have a: "\<not> path_exists node_empty ''/root/service/app_server.py''"
    and b: "\<not> path_exists node_empty ''/workspace/app_server.py''"
    by (simp_all add: node_empty_def)
  have p: "pgrep node_empty = Returns 1" by (simp add: node_empty_def node_ok_def)
  have s: "spawns (fst (start_xvfb node_empty)) = [xvfb_call]"
    by (simp add: readers_start_xvfb p)
  note t = missing_entry_point_exits_without_launch [OF a b]
  from t have x: "snd (controller node_empty) = Exit 1" by simp
  from t have y: "backend_launches (fst (controller node_empty)) = []" by blast
  from t have "spawns (fst (controller node_empty)) = spawns (fst (start_xvfb node_empty))"
    by blast
  with s x y show ?thesis by simp
qed

text \<open>
  Claim C10. After a health timeout the script ends with \<^verbatim>\<open>sys.exit(1)\<close> whatever the
  diagnostic step does: for every result of flushing the log, of reopening it and of
  reading it (a value or an exception), the \<^verbatim>\<open>try\<close> block is left normally and the outcome
  is exit code 1.
\<close>

theorem timeout_exit_ignores_diagnostics:
  assumes "path_exists w ''/root/service/app_server.py'' \<or> path_exists w ''/workspace/app_server.py''"
    and "makedirs w = Returns ()" and "open_log_w w = Returns ()" and "server_popen w = Returns ()"
    and "\<forall>i<60. health w i \<noteq> Returns 200"
  shows "snd (controller (w\<lparr>flush := f, open_log_r := g, readlines := r\<rparr>)) = Exit 1
       \<and> snd (print_log_tail (w\<lparr>flush := f, open_log_r := g, readlines := r\<rparr>)) = Returns ()"
proof -
  let ?w = "w\<lparr>flush := f, open_log_r := g, readlines := r\<rparr>"
  from assms(1) have "path_exists ?w ''/root/service/app_server.py'' \<or>
      path_exists ?w ''/workspace/app_server.py''" by simp
  from found_service_dir [OF this] obtain d
    where d: "snd (find_service_dir ?w service_candidates) = Some d" by blast
  from assms have ok: "makedirs ?w = Returns ()" "open_log_w ?w = Returns ()"
    "server_popen ?w = Returns ()" "\<forall>i<60. health ?w i \<noteq> Returns 200"
    by simp_all
  have "snd (controller ?w) = Exit 1"
    by (simp add: controller_on_timeout [OF d ok])
  then show ?thesis by (simp add: print_log_tail_returns)
qed

theorem timeout_exit_ignores_diagnostics_witness:
  "snd (controller (node_down\<lparr>flush := Raises (Exc ''ValueError'' ''I/O operation on closed file''),
          open_log_r := Raises (Exc ''PermissionError'' ''[Errno 13] Permission denied''),
          readlines := Raises (Exc ''UnicodeDecodeError'' ''invalid start byte'')\<rparr>)) = Exit 1
   \<and> snd (print_log_tail (node_down\<lparr>flush := Raises (Exc ''ValueError'' ''I/O operation on closed file''),
          open_log_r := Raises (Exc ''PermissionError'' ''[Errno 13] Permission denied''),
          readlines := Raises (Exc ''UnicodeDecodeError'' ''invalid start byte'')\<rparr>)) = Returns ()"
proof -
  have a: "path_exists node_down ''/root/service/app_server.py'' \<or>
           path_exists node_down ''/workspace/app_server.py''"
    by (simp add: node_down_def node_ok_def)
  have b: "makedirs node_down = Returns ()" "open_log_w node_down = Returns ()"
    "server_popen node_down = Returns ()"
    by (simp_all add: node_down_def node_ok_def)
  have c: "\<forall>i<60. health node_down i \<noteq> Returns 200"
    by (simp add: node_down_def node_ok_def)
  from timeout_exit_ignores_diagnostics [OF a b c] show ?thesis by blast
qed

text \<open>
  Claim C5. Whatever \<^verbatim>\<open>pgrep\<close>, the start of Xvfb and \<^verbatim>\<open>certutil\<close> do (return or raise),
  and whether or not the CA certificate exists, both preparation steps are left normally
  and the script goes on to test the first service directory. In the whole run \<^verbatim>\<open>pgrep\<close>
  is run once and \<^verbatim>\<open>certutil\<close> at most once, and the preparation starts Xvfb at most once.
\<close>

theorem preparer_never_fatal:
  "snd (start_xvfb w) = Returns ()
   \<and> snd (install_ca w) = Returns ()
   \<and> (\<exists>rest. fst (controller w) =
         fst (start_xvfb w) @ fst (install_ca w) @ PathExists ''/root/service/app_server.py'' # rest)
   \<and> runs (fst (controller w)) = pgrep_cmd # (if path_exists w CA_CERT then [certutil_cmd] else [])
   \<and> distinct (runs (fst (controller w)))
   \<and> spawns (fst (start_xvfb w) @ fst (install_ca w)) =
       (case pgrep w of Raises e \<Rightarrow> [] | Returns rc \<Rightarrow> if rc \<noteq> 0 then [xvfb_call] else [])
   \<and> length (spawns (fst (start_xvfb w) @ fst (install_ca w))) \<le> 1"
proof -
  have r: "runs (fst (controller w)) =
      pgrep_cmd # (if path_exists w CA_CERT then [certutil_cmd] else [])"
    by (simp add: controller_eq runs_append readers_start_xvfb readers_install_ca
        readers_find_service_dir readers_start_server readers_after_launch readers_Cons
        readers_Nil split: option.splits result.splits)
  have d: "distinct (runs (fst (controller w)))"
    by (simp add: r pgrep_cmd_def certutil_cmd_def)
  have e: "\<exists>rest. fst (controller w) =
         fst (start_xvfb w) @ fst (install_ca w) @ PathExists ''/root/service/app_server.py'' # rest"
    by (simp add: controller_eq find_service_dir_candidates)
  have s: "spawns (fst (start_xvfb w) @ fst (install_ca w)) =
       (case pgrep w of Raises e \<Rightarrow> [] | Returns rc \<Rightarrow> if rc \<noteq> 0 then [xvfb_call] else [])"
    by (simp add: spawns_append readers_start_xvfb readers_install_ca)
  have l: "length (spawns (fst (start_xvfb w) @ fst (install_ca w))) \<le> 1"
    by (simp add: s split: result.splits)
  from start_xvfb_returns [of w] install_ca_returns [of w] e r d s l show ?thesis by blast
qed

text \<open>
  Claim C6. The service directory found by the loop is the first of \<^verbatim>\<open>/root/service\<close>,
  \<^verbatim>\<open>/workspace\<close> that contains \<^verbatim>\<open>app_server.py\<close>; the interpreter is the first of
  \<^verbatim>\<open>/usr/bin/python3\<close>, \<^verbatim>\<open>/usr/local/bin/python3\<close> that exists, else \<^verbatim>\<open>sys.executable\<close>; and
  the backend, when the script gets as far as launching it, is launched once, as that
  interpreter on \<^verbatim>\<open>app_server.py\<close> with that directory as working directory.
\<close>

theorem supervisor_resolution:
  "snd (find_service_dir w service_candidates) = spec_service_dir w
   \<and> snd (resolve_python w) = Returns (spec_interpreter w)
   \<and> backend_launches (fst (controller w)) =
       (case spec_service_dir w of
          None \<Rightarrow> []
        | Some d \<Rightarrow>
            (case makedirs w of
               Raises e \<Rightarrow> []
             | Returns u \<Rightarrow>
                 (case open_log_w w of
                    Raises e \<Rightarrow> []
                  | Returns u \<Rightarrow> [server_call (os_environ w) (spec_interpreter w) d])))
   \<and> args (server_call environment python dir) = [python, ''app_server.py'']
   \<and> cwd (server_call environment python dir) = Some dir"
proof -
  have p: "snd (resolve_python w) = Returns (spec_interpreter w)"
    by (simp add: resolve_python_eq spec_interpreter_def)
  have a: "args (server_call environment python dir) = [python, ''app_server.py'']"
    and c: "cwd (server_call environment python dir) = Some dir"
    by (simp_all add: server_call_def)
  from find_service_dir_spec [of w] p backend_launches_controller [of w] a c
  show ?thesis by blast
qed

theorem supervisor_resolution_witness:
  "snd (find_service_dir node_ok service_candidates) = Some ''/workspace''
   \<and> snd (resolve_python node_ok) = Returns ''/venv/main/bin/python''
   \<and> map args (backend_launches (fst (controller node_ok))) =
       [[''/venv/main/bin/python'', ''app_server.py'']]
   \<and> map cwd (backend_launches (fst (controller node_ok))) = [Some ''/workspace'']"
proof -
  have s: "spec_service_dir node_ok = Some ''/workspace''"
    by (simp add: spec_service_dir_def node_ok_def)
  have i: "spec_interpreter node_ok = ''/venv/main/bin/python''"
    by (simp add: spec_interpreter_def node_ok_def)
  have m: "makedirs node_ok = Returns ()" "open_log_w node_ok = Returns ()"
    by (simp_all add: node_ok_def)
  note t = supervisor_resolution [of node_ok "os_environ node_ok" "''/venv/main/bin/python''"
      "''/workspace''"]
  from t have l: "backend_launches (fst (controller node_ok)) =
      [server_call (os_environ node_ok) ''/venv/main/bin/python'' ''/workspace'']"
    by (simp add: s i m)
  from t s i l m show ?thesis by simp
qed

text \<open>
  Claim C8, as the code has it. The backend's environment is the controller's with every
  variable unchanged except \<^verbatim>\<open>DISPLAY\<close>, which is always \<^verbatim>\<open>:99\<close> in the backend, also when
  \<^verbatim>\<open>DISPLAY\<close> was set to something else; the controller's own \<^verbatim>\<open>DISPLAY\<close> is set to
  \<^verbatim>\<open>:99\<close> only when it was unset.
\<close>

theorem backend_environment:
  assumes "backend_launches (fst (controller w)) = [c]"
  shows "env c = Some ((environ w)(''DISPLAY'' \<mapsto> '':99''))
       \<and> child_environ (os_environ w) c ''DISPLAY'' = Some '':99''
       \<and> (\<forall>k. k \<noteq> ''DISPLAY'' \<longrightarrow> child_environ (os_environ w) c k = environ w k)
       \<and> os_environ w ''DISPLAY'' =
           (case environ w ''DISPLAY'' of None \<Rightarrow> Some '':99'' | Some v \<Rightarrow> Some v)"
proof -
  have o: "(os_environ w)(''DISPLAY'' \<mapsto> '':99'') = (environ w)(''DISPLAY'' \<mapsto> '':99'')"
    by (simp add: os_environ_def setdefault_def split: option.splits)
  from assms obtain p d where "c = server_call (os_environ w) p d"
    by (auto simp add: backend_launches_controller split: option.splits result.splits)
  then have e: "env c = Some ((environ w)(''DISPLAY'' \<mapsto> '':99''))"
    by (simp add: server_call_def o)
  have d: "os_environ w ''DISPLAY'' =
           (case environ w ''DISPLAY'' of None \<Rightarrow> Some '':99'' | Some v \<Rightarrow> Some v)"
    by (simp add: os_environ_def setdefault_def split: option.splits)
  from e d show ?thesis by (simp add: child_environ_def)
qed

theorem backend_environment_witness:
  "child_environ (os_environ node_display0)
     (server_call (os_environ node_display0) ''/venv/main/bin/python'' ''/workspace'') ''DISPLAY''
     = Some '':99''
   \<and> child_environ (os_environ node_display0)
     (server_call (os_environ node_display0) ''/venv/main/bin/python'' ''/workspace'') ''HOME''
     = Some ''/root''
   \<and> os_environ node_display0 ''DISPLAY'' = Some '':0''"
proof -
  have s: "spec_service_dir node_display0 = Some ''/workspace''"
    by (simp add: spec_service_dir_def node_display0_def node_ok_def)
  have i: "spec_interpreter node_display0 = ''/venv/main/bin/python''"
    by (simp add: spec_interpreter_def node_display0_def node_ok_def)
  have m: "makedirs node_display0 = Returns ()" "open_log_w node_display0 = Returns ()"
    by (simp_all add: node_display0_def node_ok_def)
  have l: "backend_launches (fst (controller node_display0)) =
      [server_call (os_environ node_display0) ''/venv/main/bin/python'' ''/workspace'']"
    by (simp add: backend_launches_controller s i m)
  have h: "environ node_display0 ''HOME'' = Some ''/root''"
    and d: "environ node_display0 ''DISPLAY'' = Some '':0''"
    by (simp_all add: node_display0_def)
  from backend_environment [OF l] h d show ?thesis by simp
qed

text \<open>
  The claim as it was stated fails on a node where \<^verbatim>\<open>DISPLAY=:0\<close> is set: the controller
  keeps \<^verbatim>\<open>:0\<close>, and the backend is given \<^verbatim>\<open>:99\<close>.
\<close>

theorem preset_display_counterexample:
  "os_environ node_display0 ''DISPLAY'' = Some '':0''
   \<and> backend_display node_display0 = [Some '':99'']
   \<and> backend_display node_display0 \<noteq> [os_environ node_display0 ''DISPLAY'']"
proof -
  have s: "spec_service_dir node_display0 = Some ''/workspace''"
    by (simp add: spec_service_dir_def node_display0_def node_ok_def)
  have m: "makedirs node_display0 = Returns ()" "open_log_w node_display0 = Returns ()"
    by (simp_all add: node_display0_def node_ok_def)
  have e: "os_environ node_display0 ''DISPLAY'' = Some '':0''"
    by (simp add: os_environ_def setdefault_def node_display0_def)
  have b: "backend_display node_display0 = [Some '':99'']"
    by (simp add: backend_display_def backend_launches_controller s m child_environ_def
        server_call_def)
  from e b show ?thesis by simp
qed

text \<open>
  Claim C4. One poll is one \<^verbatim>\<open>urlopen\<close> of the health URL with a timeout of 2 seconds; it
  never lets an exception out, and it succeeds exactly when the call returns status 200.
  Every other result (another status, or any exception the call raises) is handled the same
  way: two backends that return 200 on the same polls give the same loop, the same trace
  and the same end of the script, whatever they do on the other polls.
\<close>

theorem poll_outcomes_uniform:
  assumes "\<forall>i. (h1 i = Returns 200) = (h2 i = Returns 200)"
  shows "poll_once r = ([Urlopen health_url 2], Returns (r = Returns 200))
       \<and> health_loop h1 n xs = health_loop h2 n xs
       \<and> wait_healthy (w\<lparr>health := h1\<rparr>) = wait_healthy (w\<lparr>health := h2\<rparr>)
       \<and> controller (w\<lparr>health := h1\<rparr>) = controller (w\<lparr>health := h2\<rparr>)
       \<and> polls (fst (wait_healthy w)) =
           replicate (length (polls (fst (wait_healthy w)))) (health_url, 2)"
proof -
  have l: "\<And>n xs. health_loop h1 n xs = health_loop h2 n xs"
    by (rule health_loop_cong_200 [OF assms])
  have wh: "wait_healthy (w\<lparr>health := h1\<rparr>) = wait_healthy (w\<lparr>health := h2\<rparr>)"
    by (simp add: wait_healthy_def l)
  have al: "after_launch (w\<lparr>health := h1\<rparr>) = after_launch (w\<lparr>health := h2\<rparr>)"
    by (simp add: after_launch_def wh health_update_print_log_tail cong: if_cong)
  have c: "controller (w\<lparr>health := h1\<rparr>) = controller (w\<lparr>health := h2\<rparr>)"
    by (simp add: controller_eq al health_update_start_xvfb health_update_install_ca
        health_update_find_service_dir health_update_start_server
        cong: option.case_cong result.case_cong)
  have p: "polls (fst (wait_healthy w)) =
           replicate (length (polls (fst (wait_healthy w)))) (health_url, 2)"
    unfolding wait_healthy_def by (rule polls_health_loop)
  from poll_once_eq [of r] l wh c p show ?thesis by blast
qed

theorem poll_outcomes_uniform_witness:
  "poll_once (Raises (Exc ''TimeoutError'' ''timed out'')) = poll_once (Returns 204)
   \<and> wait_healthy (node_ok\<lparr>health := (\<lambda>i. if i < 4 then Raises (Exc ''TimeoutError'' ''timed out'')
                                         else Returns 200)\<rparr>)
     = wait_healthy (node_ok\<lparr>health := (\<lambda>i. if i < 4 then Returns 204 else Returns 200)\<rparr>)
   \<and> controller (node_ok\<lparr>health := (\<lambda>i. if i < 4 then Raises (Exc ''TimeoutError'' ''timed out'')
                                         else Returns 200)\<rparr>)
     = controller (node_ok\<lparr>health := (\<lambda>i. if i < 4 then Returns 204 else Returns 200)\<rparr>)"
proof -
  let ?h1 = "\<lambda>i::nat. if i < 4 then Raises (Exc ''TimeoutError'' ''timed out'') else Returns (200::int)"
  let ?h2 = "\<lambda>i::nat. if i < 4 then Returns 204 else Returns (200::int)"
  have a: "\<forall>i. (?h1 i = Returns 200) = (?h2 i = Returns 200)" by simp
  from poll_outcomes_uniform [OF a, of "Raises (Exc ''TimeoutError'' ''timed out'')" _ _ node_ok]
    poll_outcomes_uniform [OF a, of "Returns 204" _ _ node_ok]
  show ?thesis by simp
qed

text \<open>
  Claim C7. Whenever the script hands over to the PyWorker, the configuration it passes is
  \<open>config\<close>: three handlers, with the distinct routes \<^verbatim>\<open>/generate\<close>, \<^verbatim>\<open>/status\<close> and \<^verbatim>\<open>/health\<close>,
  and the queue time of \<^verbatim>\<open>/status\<close> and of \<^verbatim>\<open>/health\<close> (5) is less than that of \<^verbatim>\<open>/generate\<close>
  (180).
\<close>

theorem router_config_routes:
  assumes "snd (controller w) = Handoff c"
  shows "c = config
       \<and> length (handlers c) = 3
       \<and> map route (handlers c) = [''/generate'', ''/status'', ''/health'']
       \<and> distinct (map route (handlers c))
       \<and> map max_queue_time (handlers c) = [180, 5, 5]
       \<and> max_queue_time (handlers c ! 1) < max_queue_time (handlers c ! 0)
       \<and> max_queue_time (handlers c ! 2) < max_queue_time (handlers c ! 0)"
proof -
  from controller_handoff_config [OF assms] have c: "c = config" .
  show ?thesis by (simp add: c config_def)
qed

theorem router_config_routes_witness:
  "snd (controller node_ok) = Handoff config
   \<and> map route (handlers config) = [''/generate'', ''/status'', ''/health'']
   \<and> map max_queue_time (handlers config) = [180, 5, 5]
   \<and> max_queue_time (handlers config ! 1) < max_queue_time (handlers config ! 0)
   \<and> max_queue_time (handlers config ! 2) < max_queue_time (handlers config ! 0)"
proof -
  have a: "path_exists node_ok ''/root/service/app_server.py'' \<or>
           path_exists node_ok ''/workspace/app_server.py''"
    by (simp add: node_ok_def)
  have b: "makedirs node_ok = Returns ()" "open_log_w node_ok = Returns ()"
    "server_popen node_ok = Returns ()"
    by (simp_all add: node_ok_def)
  have n: "(2::nat) < 60" by simp
  have g: "health node_ok 2 = Returns 200" by (simp add: node_ok_def)
  have h: "\<forall>i<2. health node_ok i \<noteq> Returns 200" by (auto simp add: node_ok_def)
  have i: "import_vastai node_ok = Returns ()" by (simp add: node_ok_def)
  have x: "snd (controller node_ok) = Handoff config"
    by (rule controller_reaches_handoff [OF a b n g h i])
  from router_config_routes [OF x] x show ?thesis by blast
qed

text \<open>
  Claim C9. Each handler's workload calculator gives the same value on any two payloads:
  100 for \<^verbatim>\<open>/generate\<close>, 1 for \<^verbatim>\<open>/status\<close> and \<^verbatim>\<open>/health\<close>, none of them negative.
\<close>

theorem workload_calculators_constant:
  "map (\<lambda>h. workload_calculator h p1) (handlers config) =
     map (\<lambda>h. workload_calculator h p2) (handlers config)
   \<and> map (\<lambda>h. (route h, workload_calculator h p1)) (handlers config) =
       [(''/generate'', 100), (''/status'', 1), (''/health'', 1)]
   \<and> list_all (\<lambda>h. 0 \<le> workload_calculator h p1) (handlers config)"
  by (simp add: config_def)

end
